theory Spec2Isabelle
  imports Main "HOL-Library.AList" "HOL-Library.Sublist"
begin

section \<open>Python values and builtins used by the handlers\<close>

text \<open>
  A Python \<open>str\<close> is modelled as a \<open>string\<close>, one \<open>char\<close> per character (all text of
  the program has code points below 256, and the program compares characters only with
  its own literals). \<open>None\<close> is \<open>None\<close> of an option type, and Python's truthiness of
  an optional string (\<open>if x:\<close>) is \<open>truthy\<close>: neither \<open>None\<close> nor the empty string.
\<close>

definition truthy :: "string option \<Rightarrow> bool" where
  "truthy x = (case x of None \<Rightarrow> False | Some s \<Rightarrow> s \<noteq> [])"

text \<open>
  A value of the form data: \<open>request.form()\<close> gives a \<open>str\<close> for a text field and an
  \<open>UploadFile\<close> object (here by its file name) for a file part of a multipart body. An
  \<open>UploadFile\<close> defines neither \<open>__bool__\<close> nor \<open>__len__\<close>, so it is always true.
\<close>

datatype field = Str string | UploadFile string

definition truthy_field :: "field \<Rightarrow> bool" where
  "truthy_field f = (case f of Str s \<Rightarrow> s \<noteq> [] | UploadFile name \<Rightarrow> True)"

definition truthy_opt :: "field option \<Rightarrow> bool" where
  "truthy_opt x = (case x of None \<Rightarrow> False | Some f \<Rightarrow> truthy_field f)"


text \<open>\<open>dict.get(key, default)\<close>.\<close>

definition get_default :: "('k \<rightharpoonup> 'v) \<Rightarrow> 'k \<Rightarrow> 'v \<Rightarrow> 'v" where
  "get_default d k dflt = (case d k of None \<Rightarrow> dflt | Some v \<Rightarrow> v)"

text \<open>\<open>s.startswith(p)\<close> is \<open>prefix p s\<close>.\<close>

text \<open>
  \<open>s.replace(old, "")\<close>: every non-overlapping occurrence of \<open>old\<close> is removed, scanning
  from the left. With an empty \<open>old\<close> and an empty replacement Python returns \<open>s\<close>.
\<close>

function str_remove :: "string \<Rightarrow> string \<Rightarrow> string" where
  "str_remove old [] = []"
| "str_remove old (c # cs) =
     (if old \<noteq> [] \<and> prefix old (c # cs)
      then str_remove old (drop (length old) (c # cs))
      else c # str_remove old cs)"
  by pat_completeness auto
termination
  by (relation "measure (\<lambda>(old, s). length s)") auto

text \<open>\<open>s.lstrip('+')\<close>.\<close>

definition lstrip_plus :: "string \<Rightarrow> string" where
  "lstrip_plus s = dropWhile (\<lambda>c. c = CHR ''+'') s"

text \<open>\<open>str(i)\<close> for a non-negative integer, as the f-string \<open>f"MediaUrl{i}"\<close> renders it.\<close>

definition digit_char :: "nat \<Rightarrow> char" where
  "digit_char d = ''0123456789'' ! (d mod 10)"

fun str_nat :: "nat \<Rightarrow> string" where
  "str_nat n = (if n < 10 then [digit_char n] else str_nat (n div 10) @ [digit_char n])"

declare str_nat.simps [simp del]

text \<open>
  The builtin \<open>int\<close> is an argument of the normalizer (\<open>int_of\<close> below): what it accepts
  depends on the interpreter (its Unicode tables, its limit on the number of digits).
  \<open>None\<close> stands for the two exceptions it raises, \<open>ValueError\<close> and \<open>TypeError\<close>.

  \<open>py_int\<close> is \<open>int(s)\<close> of an interpreter on the strings of this model, base 10:
  surrounding whitespace is dropped (tab to carriage return, space, next line and
  no-break space), then one optional sign, then decimal digits in which single
  underscores may separate digits. Its first argument is the interpreter's
  \<open>sys.get_int_max_str_digits()\<close>: more digits than that raise \<open>ValueError\<close>, and 0 means
  no limit. \<open>default_int\<close> is \<open>int\<close> with the default limit of 4300, on a form value: a
  file part raises \<open>TypeError\<close>.
\<close>

definition py_isspace :: "char \<Rightarrow> bool" where
  "py_isspace c = (of_char c \<in> set [9, 10, 11, 12, 13, 32, 133, 160 :: nat])"

definition py_strip :: "string \<Rightarrow> string" where
  "py_strip s = rev (dropWhile py_isspace (rev (dropWhile py_isspace s)))"

definition digit_val :: "char \<Rightarrow> nat option" where
  "digit_val c =
     (if 48 \<le> (of_char c :: nat) \<and> (of_char c :: nat) \<le> 57
      then Some (of_char c - 48) else None)"

fun scan_digits :: "nat \<Rightarrow> bool \<Rightarrow> string \<Rightarrow> nat option" where
  "scan_digits acc prev_us [] = (if prev_us then None else Some acc)"
| "scan_digits acc prev_us (c # cs) =
     (if c = CHR ''_'' then (if prev_us then None else scan_digits acc True cs)
      else (case digit_val c of
              None \<Rightarrow> None
            | Some d \<Rightarrow> scan_digits (10 * acc + d) False cs))"

definition py_int :: "nat \<Rightarrow> string \<Rightarrow> int option" where
  "py_int max_str_digits s =
     (let t = py_strip s;
          neg = (t \<noteq> [] \<and> hd t = CHR ''-'');
          body = (if t \<noteq> [] \<and> (hd t = CHR ''+'' \<or> hd t = CHR ''-'') then tl t else t);
          digits = length (filter (\<lambda>c. c \<noteq> CHR ''_'') body)
      in if body = [] \<or> hd body = CHR ''_'' then None
         else if 0 < max_str_digits \<and> max_str_digits < digits then None
         else (case scan_digits 0 False body of
                 None \<Rightarrow> None
               | Some n \<Rightarrow> Some (if neg then - int n else int n)))"

definition default_int :: "field \<Rightarrow> int option" where
  "default_int f = (case f of Str s \<Rightarrow> py_int 4300 s | UploadFile name \<Rightarrow> None)"

section \<open>The webhook normalizer (handlers/webhook\_handler.py)\<close>

text \<open>The inbound field mapping is the form data of the request as a dict.\<close>

type_synonym form = "string \<rightharpoonup> field"

record raw_message =
  raw_from :: string
  raw_to :: string
  raw_type :: string
  raw_text :: "field option"
  raw_message_sid :: field

record normalized =
  sender_id :: string
  message_type :: string
  timestamp :: field
  message_sid :: field
  account_sid :: "field option"
  message_body :: field
  media_urls :: "field list"
  raw :: raw_message

text \<open>
  The dict that \<open>process_webhook\<close> returns, by its \<open>status\<close> key:
  \<open>{"status": "ignored", "type": t}\<close>, \<open>{"status": "error", "detail": d}\<close> or the
  normalized message with \<open>"status": "success"\<close>.
\<close>

datatype webhook_data = Ignored string | Error string | Success normalized

fun status :: "webhook_data \<Rightarrow> string" where
  "status (Ignored t) = ''ignored''"
| "status (Error d) = ''error''"
| "status (Success m) = ''success''"

text \<open>An exception raised inside \<open>process_webhook\<close>: its class and the text of \<open>str(e)\<close>.\<close>

datatype error_class = AttributeError | KeyError | ValueError | TypeError

datatype py_error = Raised error_class string

definition no_startswith :: string where
  "no_startswith =
     [CHR 0x27] @ ''UploadFile'' @ [CHR 0x27] @ '' object has no attribute ''
     @ [CHR 0x27] @ ''startswith'' @ [CHR 0x27]"

text \<open>
  Removing the transport prefix:
  \<open>if a.startswith("whatsapp:"): a = a.replace("whatsapp:", "")\<close>. On a file part the
  attribute lookup \<open>a.startswith\<close> raises \<open>AttributeError\<close>.
\<close>

definition strip_whatsapp :: "string \<Rightarrow> string" where
  "strip_whatsapp a = (if prefix ''whatsapp:'' a then str_remove ''whatsapp:'' a else a)"

definition strip_prefix_field :: "field \<Rightarrow> py_error + string" where
  "strip_prefix_field f =
     (case f of
        Str a \<Rightarrow> Inr (strip_whatsapp a)
      | UploadFile name \<Rightarrow> Inl (Raised AttributeError no_startswith))"

text \<open>
  The body of the loop \<open>for i in range(num_media)\<close>: the field \<open>MediaUrl{i}\<close> is appended
  when it is present and true.
\<close>

definition media_step :: "form \<Rightarrow> field list \<Rightarrow> nat \<Rightarrow> field list" where
  "media_step data acc i =
     (let media_url = data (''MediaUrl'' @ str_nat i)
      in if truthy_opt media_url then acc @ [the media_url] else acc)"

definition collect_media :: "form \<Rightarrow> int \<Rightarrow> field list" where
  "collect_media data num_media =
     (if num_media > 0 then foldl (media_step data) [] [0 ..< nat num_media] else [])"

text \<open>
  The statements of the \<open>try\<close> block of \<open>process_webhook\<close>, in their order: the fields are
  read, the prefix is removed from \<open>From\<close> and then from \<open>To\<close>, the media count is
  converted (the inner \<open>try\<close> turns a failed \<open>int(num_media_str)\<close> into 0), the ids are
  checked, the media URLs are collected.
\<close>

definition process_webhook_try :: "(field \<Rightarrow> int option) \<Rightarrow> form \<Rightarrow> py_error + webhook_data" where
  "process_webhook_try int_of data =
     (let msg_sid = data ''MessageSid'';
          acc_sid = data ''AccountSid'';
          from_field = get_default data ''From'' (Str '''');
          to_field = get_default data ''To'' (Str '''');
          body = get_default data ''Body'' (Str '''');
          num_media_str = get_default data ''NumMedia'' (Str ''0'');
          ts = get_default data ''Timestamp'' (Str '''')
      in case strip_prefix_field from_field of
           Inl e \<Rightarrow> Inl e
         | Inr from_number \<Rightarrow>
             (case strip_prefix_field to_field of
                Inl e \<Rightarrow> Inl e
              | Inr to_number \<Rightarrow>
                  (let num_media = (case int_of num_media_str of None \<Rightarrow> 0 | Some n \<Rightarrow> n)
                   in if \<not> truthy_opt msg_sid \<or> from_number = []
                      then Inr (Ignored ''invalid_data'')
                      else
                        (let urls = collect_media data num_media;
                             mtype = (if urls \<noteq> [] then ''media'' else ''text'')
                         in Inr (Success
                              \<lparr> sender_id = from_number, message_type = mtype,
                                timestamp = ts, message_sid = the msg_sid,
                                account_sid = acc_sid, message_body = body,
                                media_urls = urls,
                                raw = \<lparr> raw_from = from_number, raw_to = to_number,
                                  raw_type = mtype,
                                  raw_text = (if mtype = ''text'' then Some body else None),
                                  raw_message_sid = the msg_sid \<rparr> \<rparr>)))))"

text \<open>
  \<open>process_webhook\<close>: the \<open>try\<close> block under its
  \<open>except (KeyError, ValueError, TypeError)\<close>, which returns the error outcome with the
  exception's text; an exception of another class leaves the function.
\<close>

definition caught :: "error_class \<Rightarrow> bool" where
  "caught c = (c = KeyError \<or> c = ValueError \<or> c = TypeError)"

definition process_webhook :: "(field \<Rightarrow> int option) \<Rightarrow> form \<Rightarrow> py_error + webhook_data" where
  "process_webhook int_of data =
     (case process_webhook_try int_of data of
        Inl (Raised c msg) \<Rightarrow> (if caught c then Inr (Error msg) else Inl (Raised c msg))
      | Inr r \<Rightarrow> Inr r)"

section \<open>The authenticity check of the verification route\<close>

text \<open>
  A request, as far as \<open>verify_webhook\<close> reads it: its headers and its query parameters,
  each looked up by name. \<open>Config.VERIFY_TOKEN\<close> is \<open>os.environ.get("VERIFY_TOKEN")\<close>, so it
  may be \<open>None\<close>; it is the first argument.
\<close>

record request =
  headers :: "string \<rightharpoonup> string"
  query_params :: "string \<rightharpoonup> string"

datatype http_exception = HTTPException nat string

definition invalid_token_detail :: string where
  "invalid_token_detail =
     ''Token de verifica'' @ [CHR 0xE7, CHR 0xE3] @ ''o inv'' @ [CHR 0xE1] @ ''lido ou ausente''"

definition verify_webhook :: "string option \<Rightarrow> request \<Rightarrow> http_exception + string" where
  "verify_webhook verify_token req =
     (let x_twilio_signature = headers req ''X-Twilio-Signature'';
          token_param = query_params req ''hub.verify_token''
      in if truthy x_twilio_signature then Inr ''ok''
         else if token_param = verify_token
         then (let challenge = get_default (query_params req) ''hub.challenge'' ''''
               in Inr (if challenge \<noteq> [] then challenge else ''ok''))
         else Inl (HTTPException 403 invalid_token_detail))"

text \<open>
  The route \<open>GET /webhook\<close>: the result becomes a plain-text response with status 200; an
  \<open>HTTPException\<close> is raised again, and the framework answers with its status code.
  \<open>verify_webhook\<close> raises nothing else, so the route's last \<open>except\<close> clause (status 500)
  has no branch.
\<close>

datatype response = PlainTextResponse string nat | HTTPError nat string

definition verify_webhook_endpoint :: "string option \<Rightarrow> request \<Rightarrow> response" where
  "verify_webhook_endpoint verify_token req =
     (case verify_webhook verify_token req of
        Inr result \<Rightarrow> PlainTextResponse result 200
      | Inl (HTTPException code detail) \<Rightarrow> HTTPError code detail)"

section \<open>Chat sessions and their registry (services/gemini\_client.py)\<close>

text \<open>A raised Python exception, with the text that \<open>str(e)\<close> gives.\<close>

datatype exn = Exception string

text \<open>
  What the vendors and the file system do during one call is an argument of the model:
  whether \<open>genai.Client(api_key=...)\<close> and \<open>client.chats.create(model, config)\<close> raise,
  what \<open>load_prompt_template()\<close> returns (the instruction built from the template file,
  or \<open>None\<close>), what \<open>chat.send_message(message)\<close> answers (\<open>response.text\<close>, possibly
  \<open>None\<close>) or raises, and what \<open>client.messages.create(...)\<close> answers or raises.
\<close>

record chat_handle =
  model :: string
  system_instruction :: string

record create_args =
  arg_body :: string
  arg_from :: string
  arg_to :: string
  arg_media_url :: "string option"

record message =
  sid :: string
  delivery_status :: string

datatype vendor_exn = TwilioRestException nat string | OtherException string

record vendor =
  genai_Client :: "string option \<Rightarrow> exn option"
  load_prompt_template :: "string option"
  chats_create :: "string \<Rightarrow> string \<Rightarrow> exn option"
  chat_send_message :: "chat_handle \<Rightarrow> field \<Rightarrow> exn + string option"
  messages_create :: "create_args \<Rightarrow> vendor_exn + message"

definition GEMINI_MODEL :: string where
  "GEMINI_MODEL = ''gemini-2.5-flash''"

definition default_instruction :: string where
  "default_instruction =
     ''Voc'' @ [CHR 0xEA] @ '' '' @ [CHR 0xE9]
     @ '' um atendente comercial da CryptoLock, vendedor de solu'' @ [CHR 0xE7, CHR 0xF5]
     @ ''es de seguran'' @ [CHR 0xE7] @ ''a de pipeline CI/CD. ''
     @ ''Mantenha as respostas profissionais, informativas e focadas nos benef''
     @ [CHR 0xED] @ ''cios do produto. Responda no idioma do usu'' @ [CHR 0xE1]
     @ ''rio (Portugu'' @ [CHR 0xEA] @ ''s ou Ingl'' @ [CHR 0xEA] @ ''s).''"

text \<open>
  A session object. Python objects have an identity; \<open>obj_id\<close> is that identity, given at
  construction from the registry's allocation counter. No method assigns to a field
  after \<open>__init__\<close>: the conversation itself is held by the vendor. \<open>client\<close> is the API key
  the vendor client was built with (\<open>Config.GEMINI_API_KEY\<close>, an argument here).
\<close>

record GeminiChatSession =
  obj_id :: nat
  user_id :: string
  client :: "string option"
  chat :: chat_handle

definition new_session ::
  "string option \<Rightarrow> vendor \<Rightarrow> nat \<Rightarrow> string \<Rightarrow> string option \<Rightarrow> exn + GeminiChatSession" where
  "new_session api_key v oid uid instr =
     (case genai_Client v api_key of
        Some e \<Rightarrow> Inl e
      | None \<Rightarrow>
          (let instr1 = (case instr of None \<Rightarrow> load_prompt_template v | Some s \<Rightarrow> Some s);
               instr2 = (case instr1 of None \<Rightarrow> default_instruction | Some s \<Rightarrow> s)
           in case chats_create v GEMINI_MODEL instr2 of
                Some e \<Rightarrow> Inl e
              | None \<Rightarrow>
                  Inr \<lparr> obj_id = oid, user_id = uid, client = api_key,
                        chat = \<lparr> model = GEMINI_MODEL, system_instruction = instr2 \<rparr> \<rparr>))"

definition send_message :: "vendor \<Rightarrow> GeminiChatSession \<Rightarrow> field \<Rightarrow> exn + string" where
  "send_message v s msg =
     (case chat_send_message v (chat s) msg of
        Inl e \<Rightarrow> Inl e
      | Inr text \<Rightarrow> Inr (case text of None \<Rightarrow> '''' | Some t \<Rightarrow> t))"

text \<open>
  \<open>ChatSessionManager\<close>: \<open>sessions\<close> is the dict, kept in insertion order as Python keeps
  it; \<open>allocated\<close> counts the session objects constructed so far.
\<close>

record ChatSessionManager =
  sessions :: "(string \<times> GeminiChatSession) list"
  allocated :: nat

definition new_manager :: ChatSessionManager where
  "new_manager = \<lparr> sessions = [], allocated = 0 \<rparr>"

definition get_or_create_session ::
  "string option \<Rightarrow> vendor \<Rightarrow> string \<Rightarrow> string option \<Rightarrow> ChatSessionManager
     \<Rightarrow> exn + (GeminiChatSession \<times> ChatSessionManager)" where
  "get_or_create_session api_key v uid instr mgr =
     (if map_of (sessions mgr) uid = None
      then (case new_session api_key v (allocated mgr) uid instr of
              Inl e \<Rightarrow> Inl e
            | Inr s \<Rightarrow>
                Inr (s, mgr\<lparr> sessions := AList.update uid s (sessions mgr),
                             allocated := Suc (allocated mgr) \<rparr>))
      else (case map_of (sessions mgr) uid of
              None \<Rightarrow> Inl (Exception ''KeyError'')
            | Some s \<Rightarrow> Inr (s, mgr)))"

definition get_session :: "string \<Rightarrow> ChatSessionManager \<Rightarrow> GeminiChatSession option" where
  "get_session uid mgr = map_of (sessions mgr) uid"

definition delete_session :: "string \<Rightarrow> ChatSessionManager \<Rightarrow> bool \<times> ChatSessionManager" where
  "delete_session uid mgr =
     (if map_of (sessions mgr) uid \<noteq> None
      then (True, mgr\<lparr> sessions := AList.delete uid (sessions mgr) \<rparr>)
      else (False, mgr))"

definition clear_all_sessions :: "ChatSessionManager \<Rightarrow> ChatSessionManager" where
  "clear_all_sessions mgr = mgr\<lparr> sessions := [] \<rparr>"


section \<open>The outbound sender (services/twilio\_service.py)\<close>

record TwilioWhatsAppClient =
  client_account_sid :: string
  client_auth_token :: string
  twilio_whatsapp_number :: string

datatype twilio_message_error = TwilioMessageError string

record send_result =
  success :: bool
  result_message_sid :: string
  result_status :: string
  result_to :: string
  result_from :: string

text \<open>
  The calls that leave the handler, in the order they are made: the request to the
  registry, the submission to the language model (by the session's identity) and the
  submission to the message-send API with its arguments.
\<close>

datatype call =
  SessionRequested string
| ChatSend nat field
| MessagesCreate create_args

text \<open>The first statement of \<open>send_text_message\<close>: the recipient in the vendor's form.\<close>

definition normalize_recipient :: "string \<Rightarrow> string" where
  "normalize_recipient recipient_number =
     (if \<not> prefix ''whatsapp:+'' recipient_number \<and> \<not> prefix ''+'' recipient_number
      then ''whatsapp:+'' @ lstrip_plus recipient_number
      else if prefix ''+'' recipient_number
      then ''whatsapp:'' @ recipient_number
      else recipient_number)"

text \<open>
  \<open>send_text_message\<close>: one call of \<open>messages.create\<close>; a \<open>TwilioRestException\<close> and any
  other exception both leave as \<open>TwilioMessageError\<close>. The list of calls is passed
  through, the call appended.
\<close>

definition send_text_message ::
  "vendor \<Rightarrow> TwilioWhatsAppClient \<Rightarrow> string \<Rightarrow> string \<Rightarrow> string list option \<Rightarrow> call list
     \<Rightarrow> (twilio_message_error + send_result) \<times> call list" where
  "send_text_message v self recipient_number message_body_arg media_urls_arg trace =
     (let recipient = normalize_recipient recipient_number;
          from_number = ''whatsapp:'' @ twilio_whatsapp_number self;
          args = \<lparr> arg_body = message_body_arg, arg_from = from_number, arg_to = recipient,
                   arg_media_url =
                     (case media_urls_arg of
                        None \<Rightarrow> None
                      | Some [] \<Rightarrow> None
                      | Some (u # us) \<Rightarrow> Some u) \<rparr>;
          trace' = trace @ [MessagesCreate args]
      in case messages_create v args of
           Inr m \<Rightarrow>
             (Inr \<lparr> success = True, result_message_sid = sid m,
                    result_status = delivery_status m, result_to = recipient,
                    result_from = from_number \<rparr>, trace')
         | Inl (TwilioRestException st msg) \<Rightarrow>
             (Inl (TwilioMessageError (''Erro Twilio '' @ str_nat st @ '': '' @ msg)), trace')
         | Inl (OtherException d) \<Rightarrow>
             (Inl (TwilioMessageError (''Erro ao enviar mensagem: '' @ d)), trace'))"

section \<open>The route POST /webhook (app.py)\<close>

text \<open>
  The module's state: the session registry, the message client (\<open>None\<close> when its
  construction raised at start-up) and the calls made so far. \<open>Config.GEMINI_API_KEY\<close>
  is the first argument of the handler, the vendors' behaviour during the request the
  second, the builtin \<open>int\<close> the third and the outcome of \<open>request.form()\<close> the fourth.
\<close>

record app =
  chat_manager :: ChatSessionManager
  twilio_client :: "TwilioWhatsAppClient option"
  calls :: "call list"

record ack =
  ack_status :: string
  ack_message :: string

definition apology :: string where
  "apology = ''Desculpe, ocorreu um erro ao processar sua mensagem.''"

definition media_received :: string where
  "media_received = ''M'' @ [CHR 0xED] @ ''dia recebida''"

definition unsupported_type :: string where
  "unsupported_type = ''Tipo de mensagem n'' @ [CHR 0xE3] @ ''o suportado''"

definition twilio_unavailable :: string where
  "twilio_unavailable = ''Twilio n'' @ [CHR 0xE3] @ ''o dispon'' @ [CHR 0xED] @ ''vel''"

definition critical_error :: string where
  "critical_error = ''Erro cr'' @ [CHR 0xED] @ ''tico: ''"

text \<open>
  The text path, from \<open>get_or_create_session\<close> on. An exception of the session's
  construction leaves the path; one of \<open>send_message\<close> is caught and replaced by the
  apology; \<open>TwilioMessageError\<close> is caught and reported.
\<close>

definition text_path ::
  "string option \<Rightarrow> vendor \<Rightarrow> string \<Rightarrow> field \<Rightarrow> app \<Rightarrow> (exn + ack) \<times> app" where
  "text_path api_key v sender body a =
     (let a1 = a\<lparr> calls := calls a @ [SessionRequested sender] \<rparr>
      in case get_or_create_session api_key v sender None (chat_manager a1) of
           Inl e \<Rightarrow> (Inl e, a1)
         | Inr (chat_session, mgr) \<Rightarrow>
             (let a2 = a1\<lparr> chat_manager := mgr,
                          calls := calls a1 @ [ChatSend (obj_id chat_session) body] \<rparr>;
                  ai_response = (case send_message v chat_session body of
                                   Inl e \<Rightarrow> apology
                                 | Inr t \<Rightarrow> t)
              in case twilio_client a2 of
                   None \<Rightarrow> (Inr \<lparr> ack_status = ''warning'', ack_message = twilio_unavailable \<rparr>, a2)
                 | Some tw \<Rightarrow>
                     (case send_text_message v tw sender ai_response None (calls a2) of
                        (Inl (TwilioMessageError e), trace) \<Rightarrow>
                          (Inr \<lparr> ack_status = ''error'',
                                 ack_message = ''Falha ao enviar: '' @ e \<rparr>,
                           a2\<lparr> calls := trace \<rparr>)
                      | (Inr result, trace) \<Rightarrow>
                          (Inr \<lparr> ack_status = ''success'',
                                 ack_message = ''Mensagem processada'' \<rparr>,
                           a2\<lparr> calls := trace \<rparr>))))"

text \<open>The statements of the \<open>try\<close> block after \<open>process_webhook\<close>, by the outcome it gave.\<close>

definition dispatch ::
  "string option \<Rightarrow> vendor \<Rightarrow> webhook_data \<Rightarrow> app \<Rightarrow> (exn + ack) \<times> app" where
  "dispatch api_key v wd a =
     (case wd of
        Ignored t \<Rightarrow> (Inr \<lparr> ack_status = ''success'', ack_message = ''Evento ignorado'' \<rparr>, a)
      | Error d \<Rightarrow>
          (Inr \<lparr> ack_status = ''error'', ack_message = ''Erro ao processar: '' @ d \<rparr>, a)
      | Success m \<Rightarrow>
          (if message_type m = ''text'' \<and> truthy_field (message_body m)
           then (if sender_id m = []
                 then (Inr \<lparr> ack_status = ''success'', ack_message = ''Mensagem vazia'' \<rparr>, a)
                 else text_path api_key v (sender_id m) (message_body m) a)
           else if message_type m = ''media''
           then (Inr \<lparr> ack_status = ''success'', ack_message = media_received \<rparr>, a)
           else (Inr \<lparr> ack_status = ''success'', ack_message = unsupported_type \<rparr>, a)))"

text \<open>
  \<open>handle_webhook\<close>: the \<open>try\<close> block and its \<open>except Exception\<close>, which turns whatever was
  raised (by \<open>request.form()\<close>, by \<open>process_webhook\<close> or on the text path) into an
  acknowledgment. The result is the exception that leaves the handler, or the
  acknowledgment it returns, and the state.
\<close>

definition handle_webhook ::
  "string option \<Rightarrow> vendor \<Rightarrow> (field \<Rightarrow> int option) \<Rightarrow> exn + form \<Rightarrow> app
     \<Rightarrow> (exn + ack) \<times> app" where
  "handle_webhook api_key v int_of form_data a =
     (let (r, a') = (case form_data of
                       Inl e \<Rightarrow> (Inl e, a)
                     | Inr data \<Rightarrow>
                         (case process_webhook int_of data of
                            Inl (Raised c msg) \<Rightarrow> (Inl (Exception msg), a)
                          | Inr webhook_data \<Rightarrow> dispatch api_key v webhook_data a))
      in case r of
           Inl (Exception e) \<Rightarrow>
             (Inr \<lparr> ack_status = ''error'', ack_message = critical_error @ e \<rparr>, a')
         | Inr k \<Rightarrow> (Inr k, a'))"

section \<open>Notions used to state the properties\<close>




text \<open>
  Sequences of registry operations. A \<open>get_or_create_session\<close> that raises leaves the
  registry as it was: the assignment to the dict is not reached.
\<close>

datatype registry_op =
  GetOrCreate vendor string "string option"
| Get string
| Delete string
| Clear

fun apply_op :: "string option \<Rightarrow> ChatSessionManager \<Rightarrow> registry_op \<Rightarrow> ChatSessionManager" where
  "apply_op api_key mgr (GetOrCreate v uid instr) =
     (case get_or_create_session api_key v uid instr mgr of
        Inl e \<Rightarrow> mgr
      | Inr (s, mgr') \<Rightarrow> mgr')"
| "apply_op api_key mgr (Get uid) = mgr"
| "apply_op api_key mgr (Delete uid) = snd (delete_session uid mgr)"
| "apply_op api_key mgr Clear = clear_all_sessions mgr"

definition run_ops :: "string option \<Rightarrow> registry_op list \<Rightarrow> ChatSessionManager \<Rightarrow> ChatSessionManager" where
  "run_ops api_key ops mgr = foldl (apply_op api_key) mgr ops"

fun is_removal :: "registry_op \<Rightarrow> bool" where
  "is_removal (Delete uid) = True"
| "is_removal Clear = True"
| "is_removal (GetOrCreate v uid instr) = False"
| "is_removal (Get uid) = False"

text \<open>
  One session per user: no user id occurs twice among the keys, the session stored
  under a user id is that user's, and no session object is stored under two ids.
\<close>

definition registry_inv :: "ChatSessionManager \<Rightarrow> bool" where
  "registry_inv mgr =
     (distinct (map fst (sessions mgr))
      \<and> (\<forall>(u, s) \<in> set (sessions mgr). user_id s = u \<and> obj_id s < allocated mgr)
      \<and> distinct (map (\<lambda>(u, s). obj_id s) (sessions mgr)))"

fun is_create :: "call \<Rightarrow> bool" where
  "is_create (MessagesCreate args) = True"
| "is_create (SessionRequested uid) = False"
| "is_create (ChatSend oid msg) = False"

text \<open>Concrete requests, vendors and states on which the properties are evaluated.\<close>

definition form_text :: form where
  "form_text = map_of [(''MessageSid'', Str ''SM1''), (''From'', Str ''whatsapp:+15551234567''),
                        (''Body'', Str ''hello''), (''NumMedia'', Str ''0'')]"








definition request_empty_signature :: request where
  "request_empty_signature =
     \<lparr> headers = map_of [(''X-Twilio-Signature'', '''')], query_params = map_of [] \<rparr>"

definition request_signed :: request where
  "request_signed =
     \<lparr> headers = map_of [(''X-Twilio-Signature'', ''anything'')],
       query_params = map_of [(''hub.verify_token'', ''wrong'')] \<rparr>"

definition request_token :: "string \<Rightarrow> request" where
  "request_token t =
     \<lparr> headers = map_of [],
       query_params = map_of [(''hub.verify_token'', t), (''hub.challenge'', ''xyz'')] \<rparr>"

definition vendor_model_down :: vendor where
  "vendor_model_down =
     \<lparr> genai_Client = (\<lambda>k. None), load_prompt_template = None,
       chats_create = (\<lambda>m i. None),
       chat_send_message = (\<lambda>c m. Inl (Exception ''unavailable'')),
       messages_create = (\<lambda>args. Inl (TwilioRestException 400 ''rejected'')) \<rparr>"

definition sample_client :: TwilioWhatsAppClient where
  "sample_client =
     \<lparr> client_account_sid = ''AC1'', client_auth_token = ''tok'',
       twilio_whatsapp_number = ''+14155238886'' \<rparr>"

definition app_start :: "TwilioWhatsAppClient option \<Rightarrow> app" where
  "app_start tw = \<lparr> chat_manager = new_manager, twilio_client = tw, calls = [] \<rparr>"


definition sample_session :: GeminiChatSession where
  "sample_session =
     \<lparr> obj_id = 0, user_id = ''+1555'', client = None,
       chat = \<lparr> model = GEMINI_MODEL, system_instruction = ''custom'' \<rparr> \<rparr>"

definition sample_manager :: ChatSessionManager where
  "sample_manager = \<lparr> sessions = [(''+1555'', sample_session)], allocated = 1 \<rparr>"

definition fresh_session :: GeminiChatSession where
  "fresh_session =
     \<lparr> obj_id = 0, user_id = ''+15551234567'', client = None,
       chat = \<lparr> model = GEMINI_MODEL, system_instruction = default_instruction \<rparr> \<rparr>"

definition fresh_manager :: ChatSessionManager where
  "fresh_manager = \<lparr> sessions = [(''+15551234567'', fresh_session)], allocated = 1 \<rparr>"

section \<open>Properties of the outbound address normalization\<close>

lemma normalize_recipient_prefixed:
  "prefix ''whatsapp:+'' a \<Longrightarrow> normalize_recipient a = a"
  by (auto simp add: normalize_recipient_def prefix_def)

lemma normalize_recipient_is_prefixed:
  "prefix ''whatsapp:+'' (normalize_recipient a)"
  by (auto simp add: normalize_recipient_def prefix_def)

text \<open>
  C9. The normalization of the recipient in \<open>send_text_message\<close> is idempotent, and every
  address that already starts with \<open>whatsapp:+\<close> is left as it is.
\<close>

theorem normalize_recipient_idempotent:
  "normalize_recipient (normalize_recipient a) = normalize_recipient a
   \<and> (prefix ''whatsapp:+'' a \<longrightarrow> normalize_recipient a = a)"
  using normalize_recipient_prefixed normalize_recipient_is_prefixed by blast

theorem normalize_recipient_idempotent_witness:
  "prefix ''whatsapp:+'' ''whatsapp:+15551234567''
   \<and> normalize_recipient ''whatsapp:+15551234567'' = ''whatsapp:+15551234567''
   \<and> normalize_recipient (normalize_recipient ''5511999'') = ''whatsapp:+5511999''"
  using normalize_recipient_idempotent [of "''whatsapp:+15551234567''"]
    normalize_recipient_idempotent [of "''5511999''"]
  by (simp add: normalize_recipient_def lstrip_plus_def)

section \<open>Properties of the verification route\<close>

text \<open>
  C1, as the code has it. A request whose \<open>X-Twilio-Signature\<close> header is present and not
  empty is approved with the text \<open>ok\<close> and status 200, whatever the header's value, the
  query parameters and the configured secret are: nothing is computed from the value.
\<close>

theorem signature_header_approves:
  "headers req ''X-Twilio-Signature'' = Some sg \<Longrightarrow> sg \<noteq> [] \<Longrightarrow>
   verify_webhook tok req = Inr ''ok''
   \<and> verify_webhook_endpoint tok req = PlainTextResponse ''ok'' 200"
  by (simp add: verify_webhook_def verify_webhook_endpoint_def truthy_def)

theorem signature_header_approves_witness:
  "headers request_signed ''X-Twilio-Signature'' = Some ''anything''
   \<and> ''anything'' \<noteq> ''''
   \<and> query_params request_signed ''hub.verify_token'' \<noteq> Some ''secret''
   \<and> verify_webhook (Some ''secret'') request_signed = Inr ''ok''
   \<and> verify_webhook_endpoint (Some ''secret'') request_signed = PlainTextResponse ''ok'' 200"
  using signature_header_approves [of request_signed "''anything''" "Some ''secret''"]
  by (simp add: request_signed_def)

text \<open>
  A request that carries the header with an empty value is not approved by it: without
  the right token it is denied.
\<close>

theorem empty_signature_denied:
  "headers request_empty_signature ''X-Twilio-Signature'' = Some ''''
   \<and> verify_webhook (Some ''secret'') request_empty_signature
       = Inl (HTTPException 403 invalid_token_detail)"
  by (simp add: verify_webhook_def request_empty_signature_def truthy_def)

text \<open>
  C7. Without the signature header, a \<open>hub.verify_token\<close> equal to the configured secret
  gives a plain-text response of status 200 whose body is \<open>hub.challenge\<close>, or \<open>ok\<close> when
  the challenge is absent or empty; any other token is denied with status 403.
\<close>

theorem token_path:
  "headers req ''X-Twilio-Signature'' = None \<Longrightarrow>
   verify_webhook_endpoint tok req =
     (if query_params req ''hub.verify_token'' = tok
      then PlainTextResponse
             (case query_params req ''hub.challenge'' of
                None \<Rightarrow> ''ok''
              | Some c \<Rightarrow> if c = [] then ''ok'' else c) 200
      else HTTPError 403 invalid_token_detail)"
  by (simp add: verify_webhook_def verify_webhook_endpoint_def truthy_def get_default_def
      split: option.splits)

theorem token_path_witness:
  "headers (request_token ''secret'') ''X-Twilio-Signature'' = None
   \<and> verify_webhook_endpoint (Some ''secret'') (request_token ''secret'')
       = PlainTextResponse ''xyz'' 200
   \<and> verify_webhook_endpoint (Some ''secret'') (request_token ''guess'')
       = HTTPError 403 invalid_token_detail"
  using token_path [of "request_token ''secret''" "Some ''secret''"]
    token_path [of "request_token ''guess''" "Some ''secret''"]
  by (simp add: request_token_def)

section \<open>Properties of the session registry\<close>

lemma map_of_delete_self: "map_of (AList.delete k al) k = None"
  by (simp add: AList.delete_conv')

text \<open>
  C8. \<open>delete_session\<close> on a user id that is not in the registry returns \<open>False\<close> and the
  registry is the same; on a user id that is in the registry it returns \<open>True\<close> and the
  id is absent afterwards.
\<close>

theorem delete_session_outcomes:
  "(map_of (sessions mgr) uid = None \<longrightarrow> delete_session uid mgr = (False, mgr))
   \<and> (map_of (sessions mgr) uid \<noteq> None \<longrightarrow>
        fst (delete_session uid mgr) = True
        \<and> get_session uid (snd (delete_session uid mgr)) = None
        \<and> uid \<notin> fst ` set (sessions (snd (delete_session uid mgr))))"
  by (auto simp add: delete_session_def get_session_def map_of_delete_self AList.delete_notin_dom
      simp del: not_None_eq)

theorem delete_session_outcomes_witness:
  "map_of (sessions sample_manager) ''+1999'' = None
   \<and> delete_session ''+1999'' sample_manager = (False, sample_manager)
   \<and> map_of (sessions sample_manager) ''+1555'' \<noteq> None
   \<and> fst (delete_session ''+1555'' sample_manager) = True
   \<and> get_session ''+1555'' (snd (delete_session ''+1555'' sample_manager)) = None"
  using delete_session_outcomes [of sample_manager "''+1999''"]
    delete_session_outcomes [of sample_manager "''+1555''"]
  by (simp add: sample_manager_def)

lemma get_or_create_present:
  "map_of (sessions mgr) uid = Some s \<Longrightarrow>
   get_or_create_session api_key v uid instr mgr = Inr (s, mgr)"
  by (simp add: get_or_create_session_def)

text \<open>
  C10. When the user id is already in the registry, \<open>get_or_create_session\<close> returns the
  stored session object as it is and the registry is unchanged, whatever instruction
  is passed and whatever the vendor would do: no session is constructed.
\<close>

theorem get_or_create_existing_unchanged:
  "map_of (sessions mgr) uid = Some s \<Longrightarrow>
   get_or_create_session api_key v uid instr mgr = Inr (s, mgr)"
  by (rule get_or_create_present)

theorem get_or_create_existing_unchanged_witness:
  "map_of (sessions sample_manager) ''+1555'' = Some sample_session
   \<and> get_or_create_session None vendor_model_down ''+1555'' (Some ''other'') sample_manager
       = Inr (sample_session, sample_manager)
   \<and> system_instruction (chat sample_session) = ''custom''"
  using get_or_create_existing_unchanged
    [of sample_manager "''+1555''" sample_session None vendor_model_down "Some ''other''"]
  by (simp add: sample_manager_def sample_session_def)

lemma update_absent_appends:
  "map_of al k = None \<Longrightarrow> AList.update k v al = al @ [(k, v)]"
  by (induction al) (auto split: if_splits)

lemma new_session_fields:
  "new_session api_key v oid uid instr = Inr s \<Longrightarrow> obj_id s = oid \<and> user_id s = uid"
  by (auto simp add: new_session_def Let_def split: option.splits)

lemma get_or_create_inv:
  assumes "registry_inv mgr"
    and "get_or_create_session api_key v uid instr mgr = Inr (s, mgr')"
  shows "registry_inv mgr'"
proof (cases "map_of (sessions mgr) uid")
  case (Some t)
  with assms show ?thesis by (simp add: get_or_create_session_def)
next
  case None
  from assms(2) None obtain s0 where
    ns: "new_session api_key v (allocated mgr) uid instr = Inr s0"
    and m': "mgr' = mgr\<lparr> sessions := AList.update uid s0 (sessions mgr),
                          allocated := Suc (allocated mgr) \<rparr>"
    by (auto simp add: get_or_create_session_def split: sum.splits)
  have upd: "AList.update uid s0 (sessions mgr) = sessions mgr @ [(uid, s0)]"
    using None by (rule update_absent_appends)
  have f: "obj_id s0 = allocated mgr" "user_id s0 = uid"
    using new_session_fields [OF ns] by simp_all
  have notin: "uid \<notin> fst ` set (sessions mgr)"
    using None by (simp add: map_of_eq_None_iff)
  have fresh: "allocated mgr \<notin> (\<lambda>(u, s). obj_id s) ` set (sessions mgr)"
    using assms(1) by (fastforce simp add: registry_inv_def)
  show ?thesis
    using assms(1) notin fresh f
    by (auto simp add: registry_inv_def m' upd less_Suc_eq)
qed

lemma delete_session_inv:
  "registry_inv mgr \<Longrightarrow> registry_inv (snd (delete_session uid mgr))"
  by (auto simp add: registry_inv_def delete_session_def AList.delete_eq distinct_map_filter)

lemma apply_op_inv: "registry_inv mgr \<Longrightarrow> registry_inv (apply_op api_key mgr op)"
proof (cases op)
  case (GetOrCreate v uid instr)
  assume "registry_inv mgr"
  then show ?thesis
    using GetOrCreate get_or_create_inv [of mgr api_key v uid instr]
    by (auto split: sum.splits)
next
  case (Delete uid)
  assume "registry_inv mgr"
  then show ?thesis using Delete by (simp add: delete_session_inv)
qed (simp_all add: registry_inv_def clear_all_sessions_def)

lemma run_ops_inv: "registry_inv mgr \<Longrightarrow> registry_inv (run_ops api_key ops mgr)"
  unfolding run_ops_def
  by (induction ops arbitrary: mgr) (simp_all add: apply_op_inv)

lemma new_manager_inv: "registry_inv new_manager"
  by (simp add: registry_inv_def new_manager_def)

lemma get_or_create_stores:
  "get_or_create_session api_key v uid instr mgr = Inr (s, mgr') \<Longrightarrow>
   map_of (sessions mgr') uid = Some s"
  by (auto simp add: get_or_create_session_def AList.update_conv'
      split: if_splits sum.splits option.splits)

lemma get_or_create_keeps:
  "map_of (sessions mgr) uid = Some s \<Longrightarrow>
   get_or_create_session api_key v uid' instr mgr = Inr (s', mgr') \<Longrightarrow>
   map_of (sessions mgr') uid = Some s"
  by (auto simp add: get_or_create_session_def AList.update_conv'
      split: if_splits sum.splits option.splits)

lemma apply_op_keeps:
  "map_of (sessions mgr) uid = Some s \<Longrightarrow> \<not> is_removal op \<Longrightarrow>
   map_of (sessions (apply_op api_key mgr op)) uid = Some s"
  by (cases op) (auto split: sum.splits dest: get_or_create_keeps)

lemma run_ops_keeps:
  "map_of (sessions mgr) uid = Some s \<Longrightarrow> \<forall>op \<in> set ops. \<not> is_removal op \<Longrightarrow>
   map_of (sessions (run_ops api_key ops mgr)) uid = Some s"
  unfolding run_ops_def
  by (induction ops arbitrary: mgr) (simp_all add: apply_op_keeps)

text \<open>
  C5. Every registry reached from the empty one by registry operations holds at most
  one session per user id. After a \<open>get_or_create_session\<close> that returned a session for a
  user id, and any operations other than \<open>delete_session\<close> and \<open>clear_all_sessions\<close>, the
  next \<open>get_or_create_session\<close> for that id returns the same session object and leaves
  the registry as it is.
\<close>

theorem single_session_per_user:
  "registry_inv (run_ops api_key ops0 new_manager)
   \<and> (get_or_create_session api_key v1 uid instr1 mgr = Inr (s1, mgr1)
        \<longrightarrow> (\<forall>op \<in> set ops. \<not> is_removal op)
        \<longrightarrow> get_or_create_session api_key v2 uid instr2 (run_ops api_key ops mgr1)
              = Inr (s1, run_ops api_key ops mgr1))"
  using run_ops_inv [OF new_manager_inv] get_or_create_stores run_ops_keeps
    get_or_create_present
  by meson

lemma fresh_session_created:
  "get_or_create_session None vendor_model_down ''+15551234567'' None new_manager
     = Inr (fresh_session, fresh_manager)"
  by (simp add: get_or_create_session_def new_session_def new_manager_def vendor_model_down_def
      fresh_session_def fresh_manager_def)

theorem single_session_per_user_witness:
  "registry_inv (run_ops None
      [GetOrCreate vendor_model_down ''+1'' None, GetOrCreate vendor_model_down ''+2'' (Some ''x''),
       Delete ''+1'', GetOrCreate vendor_model_down ''+1'' None] new_manager)
   \<and> get_or_create_session None vendor_model_down ''+15551234567'' None new_manager
       = Inr (fresh_session, fresh_manager)
   \<and> filter is_removal [Get ''+15551234567'', GetOrCreate vendor_model_down ''+2'' None] = []
   \<and> get_or_create_session None vendor_model_down ''+15551234567'' (Some ''other'')
         (run_ops None [Get ''+15551234567'', GetOrCreate vendor_model_down ''+2'' None]
            fresh_manager)
       = Inr (fresh_session,
              run_ops None [Get ''+15551234567'', GetOrCreate vendor_model_down ''+2'' None]
                fresh_manager)"
  using single_session_per_user
    [of None "[GetOrCreate vendor_model_down ''+1'' None,
               GetOrCreate vendor_model_down ''+2'' (Some ''x''),
               Delete ''+1'', GetOrCreate vendor_model_down ''+1'' None]"
        vendor_model_down "''+15551234567''" None new_manager fresh_session fresh_manager
        "[Get ''+15551234567'', GetOrCreate vendor_model_down ''+2'' None]"
        vendor_model_down "Some ''other''"]
    fresh_session_created
  by simp

section \<open>Properties of the webhook normalizer\<close>






lemma strip_prefix_field_raises:
  "strip_prefix_field f = Inl e \<Longrightarrow> e = Raised AttributeError no_startswith"
  by (cases f) (simp_all add: strip_prefix_field_def)

lemma process_webhook_try_raises:
  "process_webhook_try int_of data = Inl e \<Longrightarrow> e = Raised AttributeError no_startswith"
  by (auto simp add: process_webhook_try_def Let_def
      dest: strip_prefix_field_raises split: sum.splits if_splits)

lemma process_webhook_is_try:
  "process_webhook int_of data = process_webhook_try int_of data"
proof (cases "process_webhook_try int_of data")
  case (Inl e)
  then have "e = Raised AttributeError no_startswith"
    by (rule process_webhook_try_raises)
  with Inl show ?thesis by (simp add: process_webhook_def caught_def)
next
  case (Inr r)
  then show ?thesis by (simp add: process_webhook_def)
qed














lemma model_down: "send_message vendor_model_down s msg = Inl (Exception ''unavailable'')"
  by (simp add: send_message_def vendor_model_down_def)








section \<open>Properties of the webhook handler\<close>

lemma process_webhook_sender:
  "process_webhook int_of data = Inr (Success m) \<Longrightarrow> sender_id m \<noteq> []"
  by (auto simp add: process_webhook_is_try process_webhook_try_def Let_def
      split: sum.splits if_splits)

lemma send_text_message_fst:
  "fst (send_text_message v tw r b mu tr) = fst (send_text_message v tw r b mu [])"
  by (simp add: send_text_message_def Let_def split: sum.splits vendor_exn.splits)

lemma send_text_message_trace:
  "snd (send_text_message v tw r b None tr) =
     tr @ [MessagesCreate \<lparr> arg_body = b, arg_from = ''whatsapp:'' @ twilio_whatsapp_number tw,
                              arg_to = normalize_recipient r, arg_media_url = None \<rparr>]"
  by (simp add: send_text_message_def Let_def split: sum.splits vendor_exn.splits)

lemma handle_webhook_returns:
  "\<exists>k. fst (handle_webhook api_key v int_of fd a) = Inr k"
  by (simp add: handle_webhook_def Let_def
      split: prod.splits sum.splits exn.splits py_error.splits)

lemma handle_webhook_text:
  assumes "process_webhook int_of data = Inr (Success m)"
    and "message_type m = ''text''" and "truthy_field (message_body m)"
  shows "handle_webhook api_key v int_of (Inr data) a =
     (case text_path api_key v (sender_id m) (message_body m) a of
        (Inl (Exception e), a') \<Rightarrow>
          (Inr \<lparr> ack_status = ''error'', ack_message = critical_error @ e \<rparr>, a')
      | (Inr k, a') \<Rightarrow> (Inr k, a'))"
  using assms process_webhook_sender [OF assms(1)]
  by (simp add: handle_webhook_def dispatch_def split: prod.splits sum.splits exn.splits)

lemma text_path_with_client:
  assumes "get_or_create_session api_key v sender None (chat_manager a) = Inr (s, mgr)"
    and "twilio_client a = Some tw"
  shows "text_path api_key v sender body a =
     (let reply = (case send_message v s body of Inl e \<Rightarrow> apology | Inr t \<Rightarrow> t);
          r = send_text_message v tw sender reply None
                (calls a @ [SessionRequested sender, ChatSend (obj_id s) body]);
          a' = a\<lparr> chat_manager := mgr, calls := snd r \<rparr>
      in case fst r of
           Inl (TwilioMessageError x) \<Rightarrow>
             (Inr \<lparr> ack_status = ''error'', ack_message = ''Falha ao enviar: '' @ x \<rparr>, a')
         | Inr res \<Rightarrow>
             (Inr \<lparr> ack_status = ''success'', ack_message = ''Mensagem processada'' \<rparr>, a'))"
  using assms
  by (simp add: text_path_def Let_def split: prod.splits sum.splits twilio_message_error.splits)

text \<open>
  C6, as the code has it. On the text path, with a session obtained and the message
  client available: when \<open>send_message\<close> raises, the send is attempted once, with the
  apology as its body; when the send raises \<open>TwilioMessageError\<close>, the handler returns an
  acknowledgment of status \<open>error\<close> that reports it, after exactly one call of the send
  API. The handler returns an acknowledgment on every input: it never raises.
\<close>

theorem text_path_vendor_failures:
  assumes "process_webhook int_of data = Inr (Success m)"
    and "message_type m = ''text''" and "truthy_field (message_body m)"
    and "get_or_create_session api_key v (sender_id m) None (chat_manager a) = Inr (s, mgr)"
    and "twilio_client a = Some tw"
  shows "(send_message v s (message_body m) = Inl e \<longrightarrow>
            calls (snd (handle_webhook api_key v int_of (Inr data) a)) =
              calls a @ [SessionRequested (sender_id m), ChatSend (obj_id s) (message_body m),
                MessagesCreate \<lparr> arg_body = apology,
                  arg_from = ''whatsapp:'' @ twilio_whatsapp_number tw,
                  arg_to = normalize_recipient (sender_id m), arg_media_url = None \<rparr>])
         \<and> (fst (send_text_message v tw (sender_id m)
                   (case send_message v s (message_body m) of Inl e \<Rightarrow> apology | Inr t \<Rightarrow> t)
                   None []) = Inl (TwilioMessageError x) \<longrightarrow>
              fst (handle_webhook api_key v int_of (Inr data) a) =
                Inr \<lparr> ack_status = ''error'', ack_message = ''Falha ao enviar: '' @ x \<rparr>
              \<and> length (filter is_create
                          (calls (snd (handle_webhook api_key v int_of (Inr data) a))))
                  = Suc (length (filter is_create (calls a))))
         \<and> (\<forall>v' int_of' fd a'. \<exists>k. fst (handle_webhook api_key v' int_of' fd a') = Inr k)"
proof (intro conjI impI allI)
  let ?reply = "case send_message v s (message_body m) of Inl e \<Rightarrow> apology | Inr t \<Rightarrow> t"
  let ?tr = "calls a @ [SessionRequested (sender_id m), ChatSend (obj_id s) (message_body m)]"
  let ?r = "send_text_message v tw (sender_id m) ?reply None ?tr"
  note hw = handle_webhook_text [OF assms(1-3), of api_key v a]
  note tp = text_path_with_client [OF assms(4,5), of "message_body m"]
  {
    assume "send_message v s (message_body m) = Inl e"
    then show "calls (snd (handle_webhook api_key v int_of (Inr data) a)) =
              calls a @ [SessionRequested (sender_id m), ChatSend (obj_id s) (message_body m),
                MessagesCreate \<lparr> arg_body = apology,
                  arg_from = ''whatsapp:'' @ twilio_whatsapp_number tw,
                  arg_to = normalize_recipient (sender_id m), arg_media_url = None \<rparr>]"
      by (simp add: hw tp Let_def send_text_message_trace
          split: sum.splits twilio_message_error.splits)
  }
  {
    assume "fst (send_text_message v tw (sender_id m) ?reply None []) = Inl (TwilioMessageError x)"
    then have f: "fst ?r = Inl (TwilioMessageError x)"
      using send_text_message_fst [of v tw "sender_id m" ?reply None ?tr] by simp
    show "fst (handle_webhook api_key v int_of (Inr data) a) =
            Inr \<lparr> ack_status = ''error'', ack_message = ''Falha ao enviar: '' @ x \<rparr>"
      using f by (simp add: hw tp Let_def)
    show "length (filter is_create (calls (snd (handle_webhook api_key v int_of (Inr data) a))))
            = Suc (length (filter is_create (calls a)))"
      using f by (simp add: hw tp Let_def send_text_message_trace)
  }
  show "\<exists>k. fst (handle_webhook api_key v' int_of' fd a') = Inr k" for v' int_of' fd a'
    by (rule handle_webhook_returns)
qed

lemma form_text_normalized:
  "process_webhook default_int form_text =
     Inr (Success \<lparr> sender_id = ''+15551234567'', message_type = ''text'',
       timestamp = Str '''', message_sid = Str ''SM1'', account_sid = None,
       message_body = Str ''hello'', media_urls = [],
       raw = \<lparr> raw_from = ''+15551234567'', raw_to = '''', raw_type = ''text'',
               raw_text = Some (Str ''hello''), raw_message_sid = Str ''SM1'' \<rparr> \<rparr>)"
  by (simp add: process_webhook_is_try process_webhook_try_def form_text_def get_default_def
      truthy_opt_def truthy_field_def strip_prefix_field_def strip_whatsapp_def
      default_int_def py_int_def py_strip_def py_isspace_def digit_val_def
      collect_media_def Let_def)

text \<open>
  Without a message client the model's failure is still replaced by the apology, but no
  send is attempted: the handler returns a warning.
\<close>

theorem no_client_no_send:
  "twilio_client (app_start None) = None
   \<and> send_message vendor_model_down fresh_session (Str ''hello'')
       = Inl (Exception ''unavailable'')
   \<and> handle_webhook None vendor_model_down default_int (Inr form_text) (app_start None) =
       (Inr \<lparr> ack_status = ''warning'', ack_message = twilio_unavailable \<rparr>,
        \<lparr> chat_manager = fresh_manager, twilio_client = None,
          calls = [SessionRequested ''+15551234567'', ChatSend 0 (Str ''hello'')] \<rparr>)"
  by (simp add: model_down handle_webhook_def dispatch_def form_text_normalized text_path_def
      truthy_field_def app_start_def fresh_session_created fresh_session_def)

theorem text_path_vendor_failures_witness:
  "calls (snd (handle_webhook None vendor_model_down default_int (Inr form_text)
                 (app_start (Some sample_client)))) =
     [SessionRequested ''+15551234567'', ChatSend 0 (Str ''hello''),
      MessagesCreate \<lparr> arg_body = apology, arg_from = ''whatsapp:+14155238886'',
        arg_to = ''whatsapp:+15551234567'', arg_media_url = None \<rparr>]
   \<and> fst (handle_webhook None vendor_model_down default_int (Inr form_text)
            (app_start (Some sample_client)))
       = Inr \<lparr> ack_status = ''error'',
               ack_message = ''Falha ao enviar: Erro Twilio 400: rejected'' \<rparr>"
proof -
  let ?m = "\<lparr> sender_id = ''+15551234567'', message_type = ''text'', timestamp = Str '''',
       message_sid = Str ''SM1'', account_sid = None, message_body = Str ''hello'',
       media_urls = [],
       raw = \<lparr> raw_from = ''+15551234567'', raw_to = '''', raw_type = ''text'',
               raw_text = Some (Str ''hello''), raw_message_sid = Str ''SM1'' \<rparr> \<rparr>"
  let ?a = "app_start (Some sample_client)"
  have h1: "process_webhook default_int form_text = Inr (Success ?m)"
    by (rule form_text_normalized)
  have h2: "message_type ?m = ''text''" by simp
  have h3: "truthy_field (message_body ?m)" by (simp add: truthy_field_def)
  have h4: "get_or_create_session None vendor_model_down (sender_id ?m) None (chat_manager ?a)
              = Inr (fresh_session, fresh_manager)"
    by (simp add: app_start_def fresh_session_created)
  have h5: "twilio_client ?a = Some sample_client" by (simp add: app_start_def)
  have h6: "send_message vendor_model_down fresh_session (message_body ?m)
              = Inl (Exception ''unavailable'')"
    by (rule model_down)
  have h7: "fst (send_text_message vendor_model_down sample_client (sender_id ?m)
                   (case send_message vendor_model_down fresh_session (message_body ?m) of
                      Inl e \<Rightarrow> apology | Inr t \<Rightarrow> t) None [])
              = Inl (TwilioMessageError ''Erro Twilio 400: rejected'')"
    by (simp add: send_text_message_def vendor_model_down_def Let_def str_nat.simps
        digit_char_def)
  have n: "normalize_recipient ''+15551234567'' = ''whatsapp:+15551234567''"
    by (simp add: normalize_recipient_def)
  show ?thesis
    using text_path_vendor_failures [OF h1 h2 h3 h4 h5,
        of "Exception ''unavailable''" "''Erro Twilio 400: rejected''"] h6 h7
    by (simp add: app_start_def sample_client_def fresh_session_def n)
qed

end
